theory Spec2Isabelle
  imports Main "HOL-Library.AList"
begin

section \<open>Values and strings of the runtime\<close>

text \<open>
  The supervisor is \<^verbatim>\<open>src/index.js\<close>: an Express application with three routes
  (\<^verbatim>\<open>/start-bot\<close>, \<^verbatim>\<open>/stop-bot\<close>, \<^verbatim>\<open>/logs\<close>), a socket.io server for live logs and one
  forked child process per tenant. JavaScript strings are modelled as \<open>string\<close>, the
  UTF-8 bytes of the text; the emoji of the source's literals are written as their bytes.

  A field of a request body or query is a JSON value, or \<open>JUndefined\<close> when the field is
  absent. Numbers are the integer-valued ones, printed by \<^verbatim>\<open>String\<close> in plain decimal
  digits.
\<close>

datatype json =
    JUndefined
  | JNull
  | JBool bool
  | JNum int
  | JStr string
  | JArr "json list"
  | JObj "(string \<times> json) list"

text \<open>\<^verbatim>\<open>!x\<close> is true exactly for the falsy values: undefined, null, false, 0 and the empty string.\<close>

fun truthy :: "json \<Rightarrow> bool" where
  "truthy JUndefined = False"
| "truthy JNull = False"
| "truthy (JBool b) = b"
| "truthy (JNum n) = (n \<noteq> 0)"
| "truthy (JStr s) = (s \<noteq> [])"
| "truthy (JArr xs) = True"
| "truthy (JObj kvs) = True"

definition digit_char :: "nat \<Rightarrow> char" where
  "digit_char d = char_of (48 + d)"

function string_of_nat :: "nat \<Rightarrow> string" where
  "string_of_nat n =
     (if n < 10 then [digit_char n] else string_of_nat (n div 10) @ [digit_char (n mod 10)])"
  by pat_completeness auto
termination
  by (relation "measure (\<lambda>n. n)") auto

declare string_of_nat.simps [simp del]

definition string_of_int :: "int \<Rightarrow> string" where
  "string_of_int i = (if i < 0 then CHR ''-'' # string_of_nat (nat (- i)) else string_of_nat (nat i))"

fun join_comma :: "string list \<Rightarrow> string" where
  "join_comma [] = []"
| "join_comma [x] = x"
| "join_comma (x # y # ys) = x @ '','' @ join_comma (y # ys)"

text \<open>
  \<^verbatim>\<open>String(x)\<close>, which is also the property key of \<^verbatim>\<open>processes[x]\<close> and the text of
  \<^verbatim>\<open>${x}\<close> in a template literal. An array prints its elements separated by commas, with
  null and undefined elements printed as the empty string.
\<close>

fun js_String :: "json \<Rightarrow> string" where
  "js_String JUndefined = ''undefined''"
| "js_String JNull = ''null''"
| "js_String (JBool b) = (if b then ''true'' else ''false'')"
| "js_String (JNum n) = string_of_int n"
| "js_String (JStr s) = s"
| "js_String (JArr xs) =
     join_comma (map (\<lambda>x. if x = JNull \<or> x = JUndefined then [] else js_String x) xs)"
| "js_String (JObj kvs) = ''[object Object]''"

subsection \<open>\<^verbatim>\<open>String.prototype.trim\<close>\<close>

text \<open>
  The white space and line terminators of ECMAScript, in UTF-8: TAB, LF, VT, FF, CR,
  SPACE, U+00A0, U+1680, U+2000 to U+200A, U+2028, U+2029, U+202F, U+205F, U+3000, U+FEFF.
\<close>

definition ws_seqs :: "string list" where
  "ws_seqs =
     [[CHR 0x09], [CHR 0x0A], [CHR 0x0B], [CHR 0x0C], [CHR 0x0D], [CHR 0x20],
      [CHR 0xC2, CHR 0xA0],
      [CHR 0xE1, CHR 0x9A, CHR 0x80],
      [CHR 0xE2, CHR 0x80, CHR 0x80], [CHR 0xE2, CHR 0x80, CHR 0x81],
      [CHR 0xE2, CHR 0x80, CHR 0x82], [CHR 0xE2, CHR 0x80, CHR 0x83],
      [CHR 0xE2, CHR 0x80, CHR 0x84], [CHR 0xE2, CHR 0x80, CHR 0x85],
      [CHR 0xE2, CHR 0x80, CHR 0x86], [CHR 0xE2, CHR 0x80, CHR 0x87],
      [CHR 0xE2, CHR 0x80, CHR 0x88], [CHR 0xE2, CHR 0x80, CHR 0x89],
      [CHR 0xE2, CHR 0x80, CHR 0x8A],
      [CHR 0xE2, CHR 0x80, CHR 0xA8], [CHR 0xE2, CHR 0x80, CHR 0xA9],
      [CHR 0xE2, CHR 0x80, CHR 0xAF],
      [CHR 0xE2, CHR 0x81, CHR 0x9F],
      [CHR 0xE3, CHR 0x80, CHR 0x80],
      [CHR 0xEF, CHR 0xBB, CHR 0xBF]]"

fun strip_one :: "string list \<Rightarrow> string \<Rightarrow> string option" where
  "strip_one [] s = None"
| "strip_one (w # ws) s =
     (if w \<noteq> [] \<and> take (length w) s = w then Some (drop (length w) s) else strip_one ws s)"

function strip_all :: "string list \<Rightarrow> string \<Rightarrow> string" where
  "strip_all ws s = (case strip_one ws s of None \<Rightarrow> s | Some t \<Rightarrow> strip_all ws t)"
  by pat_completeness auto
termination
proof (relation "measure (\<lambda>(ws, s). length s)")
  show "wf (measure (\<lambda>(ws :: string list, s :: string). length s))"
    by simp
next
  fix ws :: "string list" and s t :: string
  assume "strip_one ws s = Some t"
  then have "length t < length s"
  proof (induction ws)
    case Nil
    then show ?case by simp
  next
    case (Cons w ws)
    show ?case
    proof (cases "w \<noteq> [] \<and> take (length w) s = w")
      case True
      then have "s \<noteq> []" by auto
      moreover from True Cons.prems have "t = drop (length w) s" by simp
      ultimately show ?thesis using True by (cases w) auto
    next
      case False
      then show ?thesis using Cons by auto
    qed
  qed
  then show "((ws, t), (ws, s)) \<in> measure (\<lambda>(ws, s). length s)"
    by simp
qed

declare strip_all.simps [simp del]

definition js_trim :: "string \<Rightarrow> string" where
  "js_trim s = rev (strip_all (map rev ws_seqs) (rev (strip_all ws_seqs s)))"

section \<open>The tenant store, the running mapping and the workers\<close>

text \<open>
  \<^verbatim>\<open>USERS_DIR\<close> holds one directory per tenant; \<open>users\<close> lists its entries in the order
  \<^verbatim>\<open>readdirSync\<close> returns them, each with the three files the supervisor writes. An
  identifier names the entry \<^verbatim>\<open>path.join(USERS_DIR, String(admin))\<close>, so identifiers are
  taken to be single path components. The worker program is opaque: of a worker only the
  chunks of its output and its exit reach the supervisor, and the files are written by
  the supervisor alone. A file system call fails only for a missing directory.
\<close>

record tenant_dir =
  appstate_json :: "string option"
  admin_txt :: "string option"
  logs_txt :: "string option"

datatype fname = AppstateJson | AdminTxt | LogsTxt

fun file_get :: "fname \<Rightarrow> tenant_dir \<Rightarrow> string option" where
  "file_get AppstateJson d = appstate_json d"
| "file_get AdminTxt d = admin_txt d"
| "file_get LogsTxt d = logs_txt d"

fun file_set :: "fname \<Rightarrow> string \<Rightarrow> tenant_dir \<Rightarrow> tenant_dir" where
  "file_set AppstateJson t d = d\<lparr>appstate_json := Some t\<rparr>"
| "file_set AdminTxt t d = d\<lparr>admin_txt := Some t\<rparr>"
| "file_set LogsTxt t d = d\<lparr>logs_txt := Some t\<rparr>"

definition empty_dir :: tenant_dir where
  "empty_dir = \<lparr>appstate_json = None, admin_txt = None, logs_txt = None\<rparr>"

text \<open>
  A forked worker, as the closures of its three event handlers see it: the identifier
  \<^verbatim>\<open>String(admin)\<close> they captured (it names the log directory, the broadcast room and
  the key of \<^verbatim>\<open>processes\<close>), and whether its \<^verbatim>\<open>exit\<close> event is still to come.
\<close>

record child =
  c_uid :: string
  c_alive :: bool

text \<open>
  What \<^verbatim>\<open>child.kill()\<close> does is the operating system's answer: the signal is delivered
  (\<^verbatim>\<open>true\<close>), the process is already gone (\<^verbatim>\<open>false\<close>), or the call throws.
\<close>

datatype kill_result = KillDelivered | KillNotDelivered | KillThrows

datatype os_call = KillCall nat kill_result | ForkCall nat string

datatype console_entry = ErrStartBot | ErrWritingLogs

record response =
  status :: nat
  body :: string

text \<open>\<^verbatim>\<open>JSON.parse\<close> (\<open>None\<close> when it throws) and \<^verbatim>\<open>JSON.stringify(_, null, 2)\<close> are the runtime's.\<close>

record runtime =
  json_parse :: "string \<Rightarrow> json option"
  json_stringify :: "json \<Rightarrow> string"

record state =
  users :: "(string \<times> tenant_dir) list"
  processes :: "string \<rightharpoonup> nat"
  children :: "child list"
  rooms :: "(nat \<times> json) list"
  inbox :: "(nat \<times> string) list"
  console :: "console_entry list"
  os_calls :: "os_call list"

definition MAX_USERS :: nat where
  "MAX_USERS = 20"

subsection \<open>File system calls\<close>

definition existsSync_dir :: "state \<Rightarrow> string \<Rightarrow> bool" where
  "existsSync_dir s uid = (map_of (users s) uid \<noteq> None)"

definition read_file :: "state \<Rightarrow> string \<Rightarrow> fname \<Rightarrow> string option" where
  "read_file s uid f = (case map_of (users s) uid of None \<Rightarrow> None | Some d \<Rightarrow> file_get f d)"

definition existsSync_file :: "state \<Rightarrow> string \<Rightarrow> fname \<Rightarrow> bool" where
  "existsSync_file s uid f = (read_file s uid f \<noteq> None)"

definition readdirSync :: "state \<Rightarrow> string list" where
  "readdirSync s = map fst (users s)"

text \<open>\<^verbatim>\<open>mkdirSync(userDir, { recursive: true })\<close>: nothing happens when the directory exists.\<close>

definition mkdirSync :: "string \<Rightarrow> state \<Rightarrow> state" where
  "mkdirSync uid s =
     (if existsSync_dir s uid then s else s\<lparr>users := users s @ [(uid, empty_dir)]\<rparr>)"

text \<open>Writing and appending throw (\<open>None\<close>) when the directory is not there.\<close>

definition writeFileSync :: "string \<Rightarrow> fname \<Rightarrow> string \<Rightarrow> state \<Rightarrow> state option" where
  "writeFileSync uid f t s =
     (case map_of (users s) uid of
        None \<Rightarrow> None
      | Some d \<Rightarrow> Some (s\<lparr>users := AList.update uid (file_set f t d) (users s)\<rparr>))"

definition appendFileSync :: "string \<Rightarrow> fname \<Rightarrow> string \<Rightarrow> state \<Rightarrow> state option" where
  "appendFileSync uid f t s =
     (case map_of (users s) uid of
        None \<Rightarrow> None
      | Some d \<Rightarrow>
          Some (s\<lparr>users :=
            AList.update uid
              (file_set f ((case file_get f d of None \<Rightarrow> [] | Some old \<Rightarrow> old) @ t) d)
              (users s)\<rparr>))"

definition newline :: string where
  "newline = [CHR 0x0A]"

definition appendLog :: "string \<Rightarrow> string \<Rightarrow> state \<Rightarrow> state" where
  "appendLog uid text s =
     (case appendFileSync uid LogsTxt (text @ newline) s of
        None \<Rightarrow> s\<lparr>console := console s @ [ErrWritingLogs]\<rparr>
      | Some s' \<Rightarrow> s')"

subsection \<open>Live logs\<close>

text \<open>
  \<^verbatim>\<open>socket.join(uid)\<close> puts the socket into the room named by the value it sent;
  \<^verbatim>\<open>io.to(String(admin)).emit('botlog', text)\<close> delivers the text to every socket in the
  room of that string.
\<close>

definition socket_join :: "nat \<Rightarrow> json \<Rightarrow> state \<Rightarrow> state" where
  "socket_join sk uid s =
     (if (sk, uid) \<in> set (rooms s) then s else s\<lparr>rooms := rooms s @ [(sk, uid)]\<rparr>)"

definition socket_disconnect :: "nat \<Rightarrow> state \<Rightarrow> state" where
  "socket_disconnect sk s = s\<lparr>rooms := filter (\<lambda>(k, r). k \<noteq> sk) (rooms s)\<rparr>"

definition room_members :: "state \<Rightarrow> string \<Rightarrow> nat list" where
  "room_members s room = map fst (filter (\<lambda>(k, r). r = JStr room) (rooms s))"

definition emit_botlog :: "string \<Rightarrow> string \<Rightarrow> state \<Rightarrow> state" where
  "emit_botlog room text s =
     s\<lparr>inbox := inbox s @ map (\<lambda>k. (k, text)) (room_members s room)\<rparr>"

section \<open>The request handlers\<close>

subsection \<open>Literals of the responses and of the log\<close>

definition cross_mark :: string where
  "cross_mark = [CHR 0xE2, CHR 0x9D, CHR 0x8C]"

definition check_mark :: string where
  "check_mark = [CHR 0xE2, CHR 0x9C, CHR 0x85]"

definition red_circle :: string where
  "red_circle = [CHR 0xF0, CHR 0x9F, CHR 0x94, CHR 0xB4]"

definition open_folder :: string where
  "open_folder = [CHR 0xF0, CHR 0x9F, CHR 0x93, CHR 0x82]"

definition warning_sign :: string where
  "warning_sign = [CHR 0xE2, CHR 0x9A, CHR 0xA0, CHR 0xEF, CHR 0xB8, CHR 0x8F]"

definition msg_missing :: string where
  "msg_missing = cross_mark @ '' Admin UID or AppState missing.''"

definition msg_limit :: string where
  "msg_limit = cross_mark @ '' Limit reached: Only 20 users allowed.''"

definition msg_started :: "string \<Rightarrow> string" where
  "msg_started uid = check_mark @ '' Bot started successfully for UID: '' @ uid"

definition msg_invalid :: string where
  "msg_invalid = cross_mark @ '' Invalid AppState JSON or internal error.''"

definition msg_uid_missing :: string where
  "msg_uid_missing = cross_mark @ '' UID missing.''"

definition msg_not_running :: string where
  "msg_not_running = warning_sign @ '' Bot not running.''"

definition msg_stopped :: "string \<Rightarrow> string" where
  "msg_stopped uid = red_circle @ '' Bot stopped for UID: '' @ uid"

definition msg_stop_failed :: string where
  "msg_stop_failed = cross_mark @ '' Failed to stop bot.''"


text \<open>The line that resets the log; \<open>now\<close> is \<^verbatim>\<open>new Date().toISOString()\<close>.\<close>

definition logs_started :: "string \<Rightarrow> string" where
  "logs_started now = open_folder @ '' Logs started at '' @ now @ newline"

text \<open>The exit code of a worker is a number, or null when a signal ended it.\<close>

definition exit_code_text :: "nat option \<Rightarrow> string" where
  "exit_code_text code = (case code of None \<Rightarrow> ''null'' | Some n \<Rightarrow> string_of_nat n)"

definition exit_msg :: "nat option \<Rightarrow> string \<Rightarrow> string" where
  "exit_msg code now = red_circle @ '' Bot exited with code '' @ exit_code_text code @ '' at '' @ now"

definition err_prefix :: "string \<Rightarrow> string" where
  "err_prefix text = ''[ERR] '' @ text"

subsection \<open>The running mapping\<close>

text \<open>
  \<^verbatim>\<open>let processes = {}\<close> is a plain object: \<open>processes s\<close> holds its own properties, set by
  \<^verbatim>\<open>processes[admin] = child\<close> and removed by \<^verbatim>\<open>delete processes[admin]\<close>. Reading
  \<^verbatim>\<open>processes[k]\<close> for a key that is not an own property finds the member of that name
  that every plain object inherits from \<^verbatim>\<open>Object.prototype\<close>, if there is one: a truthy
  value that is not a worker and has no \<^verbatim>\<open>kill\<close> method, so that calling it throws a
  TypeError. (Assigning to the key \<^verbatim>\<open>__proto__\<close> would not create an own property; start
  requests with that identifier are not covered.)
\<close>

definition object_prototype_keys :: "string list" where
  "object_prototype_keys =
     [''constructor'', ''__defineGetter__'', ''__defineSetter__'', ''hasOwnProperty'',
      ''__lookupGetter__'', ''__lookupSetter__'', ''isPrototypeOf'', ''propertyIsEnumerable'',
      ''toString'', ''valueOf'', ''__proto__'', ''toLocaleString'']"

datatype lookup = Undefined | Handle nat | Inherited

definition get_process :: "state \<Rightarrow> string \<Rightarrow> lookup" where
  "get_process s k =
     (case processes s k of
        Some h \<Rightarrow> Handle h
      | None \<Rightarrow> if k \<in> set object_prototype_keys then Inherited else Undefined)"

text \<open>The call \<^verbatim>\<open>child.kill()\<close> on a worker; it throws exactly when the answer is \<open>KillThrows\<close>.\<close>

definition kill_call :: "nat \<Rightarrow> kill_result \<Rightarrow> state \<Rightarrow> state" where
  "kill_call h kr s = s\<lparr>os_calls := os_calls s @ [KillCall h kr]\<rparr>"

text \<open>
  \<^verbatim>\<open>fork(bot.js, [String(admin)], { silent: true })\<close>: the new worker is the next entry of
  \<open>children\<close>, and its index is the handle.
\<close>

definition fork :: "string \<Rightarrow> state \<Rightarrow> state" where
  "fork uid s =
     s\<lparr>children := children s @ [\<lparr>c_uid = uid, c_alive = True\<rparr>],
       os_calls := os_calls s @ [ForkCall (length (children s)) uid]\<rparr>"

subsection \<open>\<^verbatim>\<open>POST /start-bot\<close>\<close>

definition currentUsers :: "state \<Rightarrow> string list" where
  "currentUsers s = filter (\<lambda>uid. existsSync_file s uid AppstateJson) (readdirSync s)"

text \<open>\<^verbatim>\<open>typeof appstate === 'string' ? JSON.parse(appstate) : appstate\<close>\<close>

definition decode_appstate :: "runtime \<Rightarrow> json \<Rightarrow> json option" where
  "decode_appstate rt a = (case a of JStr t \<Rightarrow> json_parse rt t | _ \<Rightarrow> Some a)"

text \<open>\<^verbatim>\<open>if (processes[admin]) { try { processes[admin].kill(); } catch (e) {} }\<close>\<close>

definition kill_previous :: "kill_result \<Rightarrow> string \<Rightarrow> state \<Rightarrow> state" where
  "kill_previous kr uid s =
     (case get_process s uid of
        Undefined \<Rightarrow> s
      | Handle h \<Rightarrow> kill_call h kr s
      | Inherited \<Rightarrow> s)"

definition launch :: "kill_result \<Rightarrow> string \<Rightarrow> state \<Rightarrow> state" where
  "launch kr uid s =
     (let s1 = kill_previous kr uid s;
          pid = length (children s1);
          s2 = fork uid s1
      in s2\<lparr>processes := (processes s2)(uid \<mapsto> pid)\<rparr>)"

text \<open>
  The body of the \<^verbatim>\<open>try\<close> block: \<open>Inl\<close> is the state at the statement that threw, \<open>Inr\<close>
  the state at the end of the block.
\<close>

definition start_try :: "runtime \<Rightarrow> string \<Rightarrow> kill_result \<Rightarrow> json \<Rightarrow> string \<Rightarrow> state \<Rightarrow> state + state" where
  "start_try rt now kr a uid s =
     (case decode_appstate rt a of
        None \<Rightarrow> Inl s
      | Some obj \<Rightarrow>
          (case writeFileSync uid AppstateJson (json_stringify rt obj) s of
             None \<Rightarrow> Inl s
           | Some s1 \<Rightarrow>
               (case writeFileSync uid AdminTxt uid s1 of
                  None \<Rightarrow> Inl s1
                | Some s2 \<Rightarrow>
                    (case writeFileSync uid LogsTxt (logs_started now) s2 of
                       None \<Rightarrow> Inl s2
                     | Some s3 \<Rightarrow> Inr (launch kr uid s3)))))"

record start_body =
  appstate :: json
  admin :: json

definition start_bot :: "runtime \<Rightarrow> string \<Rightarrow> kill_result \<Rightarrow> start_body \<Rightarrow> state \<Rightarrow> response \<times> state" where
  "start_bot rt now kr req s =
     (if \<not> truthy (appstate req) \<or> \<not> truthy (admin req)
      then (\<lparr>status = 400, body = msg_missing\<rparr>, s)
      else
        let uid = js_String (admin req) in
        if uid \<notin> set (currentUsers s) \<and> length (currentUsers s) \<ge> MAX_USERS
        then (\<lparr>status = 403, body = msg_limit\<rparr>, s)
        else
          (case start_try rt now kr (appstate req) uid
                  (if existsSync_dir s uid then s else mkdirSync uid s) of
             Inl s' \<Rightarrow>
               (\<lparr>status = 500, body = msg_invalid\<rparr>, s'\<lparr>console := console s' @ [ErrStartBot]\<rparr>)
           | Inr s' \<Rightarrow> (\<lparr>status = 200, body = msg_started uid\<rparr>, s')))"

subsection \<open>\<^verbatim>\<open>GET /stop-bot\<close>\<close>

definition stop_bot :: "kill_result \<Rightarrow> json \<Rightarrow> state \<Rightarrow> response \<times> state" where
  "stop_bot kr uid s =
     (if \<not> truthy uid then (\<lparr>status = 400, body = msg_uid_missing\<rparr>, s)
      else
        (case get_process s (js_String uid) of
           Undefined \<Rightarrow> (\<lparr>status = 200, body = msg_not_running\<rparr>, s)
         | Inherited \<Rightarrow> (\<lparr>status = 500, body = msg_stop_failed\<rparr>, s)
         | Handle h \<Rightarrow>
             (let s1 = kill_call h kr s in
              if kr = KillThrows then (\<lparr>status = 500, body = msg_stop_failed\<rparr>, s1)
              else (\<lparr>status = 200, body = msg_stopped (js_String uid)\<rparr>,
                    s1\<lparr>processes := (processes s1)(js_String uid := None)\<rparr>))))"

subsection \<open>\<^verbatim>\<open>GET /logs\<close>\<close>


section \<open>The handlers of a worker's events\<close>

definition on_stdout :: "string \<Rightarrow> string \<Rightarrow> state \<Rightarrow> state" where
  "on_stdout uid data s =
     (let text = js_trim data in emit_botlog uid text (appendLog uid text s))"

definition on_stderr :: "string \<Rightarrow> string \<Rightarrow> state \<Rightarrow> state" where
  "on_stderr uid data s =
     (let text = js_trim data
      in emit_botlog uid (err_prefix text) (appendLog uid (err_prefix text) s))"

definition on_exit :: "string \<Rightarrow> nat option \<Rightarrow> string \<Rightarrow> state \<Rightarrow> state" where
  "on_exit uid code now s =
     (let msg = exit_msg code now;
          s1 = emit_botlog uid msg (appendLog uid msg s)
      in s1\<lparr>processes := (processes s1)(uid := None)\<rparr>)"

section \<open>The server as a transition system\<close>

text \<open>
  The event loop runs one handler at a time. An event is a request, a socket message or
  an event of a worker, together with what the environment contributes to it: the clock,
  the answer of \<^verbatim>\<open>kill\<close>, the data and the exit code.
\<close>

datatype event =
    StartBot start_body string kill_result
  | StopBot json kill_result
  | Logs json
  | Join nat json
  | Disconnect nat
  | ChildStdout nat string
  | ChildStderr nat string
  | ChildExit nat "nat option" string


fun step :: "runtime \<Rightarrow> state \<Rightarrow> event \<Rightarrow> state" where
  "step rt s (StartBot req now kr) = snd (start_bot rt now kr req s)"
| "step rt s (StopBot uid kr) = snd (stop_bot kr uid s)"
| "step rt s (Logs uid) = s"
| "step rt s (Join sk uid) = socket_join sk uid s"
| "step rt s (Disconnect sk) = socket_disconnect sk s"
| "step rt s (ChildStdout c d) =
     (if c < length (children s) then on_stdout (c_uid (children s ! c)) d s else s)"
| "step rt s (ChildStderr c d) =
     (if c < length (children s) then on_stderr (c_uid (children s ! c)) d s else s)"
| "step rt s (ChildExit c code now) =
     (if c < length (children s) \<and> c_alive (children s ! c)
      then (let s1 = on_exit (c_uid (children s ! c)) code now s
            in s1\<lparr>children := (children s1)[c := (children s1 ! c)\<lparr>c_alive := False\<rparr>]\<rparr>)
      else s)"

text \<open>The server boots with whatever tenant directories earlier runs left behind.\<close>

definition boot :: "(string \<times> tenant_dir) list \<Rightarrow> state" where
  "boot us =
     \<lparr>users = us, processes = Map.empty, children = [], rooms = [], inbox = [],
      console = [], os_calls = []\<rparr>"


fun run :: "runtime \<Rightarrow> state \<Rightarrow> event list \<Rightarrow> state" where
  "run rt s [] = s"
| "run rt s (e # es) = run rt (step rt s e) es"


section \<open>States and a runtime for the worked examples\<close>

text \<open>
  A runtime that agrees with \<^verbatim>\<open>JSON.parse\<close> and \<^verbatim>\<open>JSON.stringify\<close> on the two credential
  texts the examples use, \<^verbatim>\<open>[]\<close> and \<^verbatim>\<open>{}\<close>; the other texts of the examples are not JSON.
\<close>

definition example_runtime :: runtime where
  "example_runtime =
     \<lparr>json_parse =
        (\<lambda>t. if t = ''[]'' then Some (JArr []) else if t = ''{}'' then Some (JObj []) else None),
      json_stringify = (\<lambda>j. if j = JObj [] then ''{}'' else ''[]'')\<rparr>"




text \<open>A server booted on an empty store that has started tenant 42.\<close>

definition start_42 :: event where
  "start_42 =
     StartBot \<lparr>appstate = JStr ''[]'', admin = JStr ''42''\<rparr> ''2024-01-01T00:00:00.000Z'' KillDelivered"

definition one_running :: state where
  "one_running = run example_runtime (boot []) [start_42]"






section \<open>Invariant and log of a run\<close>




section \<open>File system calls and the start request\<close>

lemma read_file_users_cong: "users s' = users s \<Longrightarrow> read_file s' k g = read_file s k g"
  by (simp add: read_file_def)

lemma read_file_mkdirSync [simp]: "read_file (mkdirSync uid s) k g = read_file s k g"
proof (cases "existsSync_dir s uid")
  case True
  then show ?thesis by (simp add: mkdirSync_def)
next
  case False
  then have "map_of (users s) uid = None" by (simp add: existsSync_dir_def)
  then show ?thesis
    by (cases g) (auto simp: mkdirSync_def read_file_def map_add_def empty_dir_def split: option.splits)
qed

lemma existsSync_dir_mkdirSync [simp]: "existsSync_dir (mkdirSync uid s) uid"
  by (auto simp: mkdirSync_def existsSync_dir_def map_add_def split: option.splits)

lemma mkdirSync_guard [simp]: "(if existsSync_dir s uid then s else mkdirSync uid s) = mkdirSync uid s"
  by (simp add: mkdirSync_def)

lemma readdirSync_mkdirSync:
  "readdirSync (mkdirSync uid s) = (if existsSync_dir s uid then readdirSync s else readdirSync s @ [uid])"
  by (simp add: mkdirSync_def readdirSync_def)

lemma mkdirSync_users: "mkdirSync uid s = s\<lparr>users := users (mkdirSync uid s)\<rparr>"
  by (simp add: mkdirSync_def)

lemma existsSync_file_mkdirSync [simp]: "existsSync_file (mkdirSync uid s) k g = existsSync_file s k g"
  by (simp add: existsSync_file_def)

lemma existsSync_file_dir: "existsSync_file s k g \<Longrightarrow> existsSync_dir s k"
  by (auto simp: existsSync_file_def existsSync_dir_def read_file_def split: option.splits)

lemma currentUsers_mkdirSync [simp]: "currentUsers (mkdirSync uid s) = currentUsers s"
proof -
  have "\<not> existsSync_dir s uid \<Longrightarrow> \<not> existsSync_file s uid AppstateJson"
    using existsSync_file_dir by blast
  then show ?thesis
    by (auto simp: currentUsers_def readdirSync_mkdirSync)
qed



lemma file_get_file_set [simp]: "file_get g (file_set f t d) = (if g = f then Some t else file_get g d)"
  by (cases f; cases g) simp_all





lemma appendFileSync_users:
  "appendFileSync uid f t s = Some s' \<Longrightarrow> s' = s\<lparr>users := users s'\<rparr>"
  by (auto simp: appendFileSync_def split: option.splits)

lemma appendFileSync_map_of:
  assumes "appendFileSync uid f t s = Some s'"
  obtains d where "map_of (users s) uid = Some d"
    and "map_of (users s') =
      (map_of (users s))(uid \<mapsto>
         file_set f ((case file_get f d of None \<Rightarrow> [] | Some old \<Rightarrow> old) @ t) d)"
  using assms by (auto simp: appendFileSync_def update_conv' split: option.splits)

lemma read_file_appendFileSync:
  assumes "appendFileSync uid f t s = Some s'"
  shows "read_file s' k g =
     (if k = uid \<and> g = f then Some ((case read_file s uid f of None \<Rightarrow> [] | Some old \<Rightarrow> old) @ t)
      else read_file s k g)"
proof -
  from assms obtain d where "map_of (users s) uid = Some d"
    and "map_of (users s') =
      (map_of (users s))(uid \<mapsto>
         file_set f ((case file_get f d of None \<Rightarrow> [] | Some old \<Rightarrow> old) @ t) d)"
    by (rule appendFileSync_map_of)
  then show ?thesis
    by (simp add: read_file_def)
qed

lemma readdirSync_appendFileSync:
  "appendFileSync uid f t s = Some s' \<Longrightarrow> readdirSync s' = readdirSync s"
  by (force simp: appendFileSync_def readdirSync_def update_keys split: option.splits dest!: map_of_SomeD)

lemma appendFileSync_Some:
  "existsSync_dir s uid \<Longrightarrow> \<exists>s'. appendFileSync uid f t s = Some s'"
  by (auto simp: appendFileSync_def existsSync_dir_def)



section \<open>Admission and decoding\<close>



lemma launch_fields:
  "users (launch kr uid s) = users s"
  "children (launch kr uid s) = children s @ [\<lparr>c_uid = uid, c_alive = True\<rparr>]"
  "processes (launch kr uid s) = (processes s)(uid \<mapsto> length (children s))"
  "rooms (launch kr uid s) = rooms s"
  "inbox (launch kr uid s) = inbox s"
  "console (launch kr uid s) = console s"
  "os_calls (launch kr uid s) =
     os_calls s @ (case get_process s uid of Handle h \<Rightarrow> [KillCall h kr] | _ \<Rightarrow> [])
       @ [ForkCall (length (children s)) uid]"
  by (simp_all add: launch_def kill_previous_def kill_call_def fork_def Let_def split: lookup.splits)








section \<open>Stopping a worker\<close>

text \<open>
  C10. When \<^verbatim>\<open>kill\<close> throws during a stop request on a tenant with a registered handle,
  the caller receives status 500 and the running mapping is the one before the request:
  the \<^verbatim>\<open>delete\<close> is behind the \<^verbatim>\<open>kill\<close> in the \<^verbatim>\<open>try\<close> block and is not reached.
\<close>

theorem stop_bot_kill_throws:
  assumes "truthy uid" and "processes s (js_String uid) = Some h"
  shows "fst (stop_bot KillThrows uid s) = \<lparr>status = 500, body = msg_stop_failed\<rparr>
    \<and> processes (snd (stop_bot KillThrows uid s)) = processes s
    \<and> snd (stop_bot KillThrows uid s) = kill_call h KillThrows s"
  using assms by (simp add: stop_bot_def get_process_def kill_call_def)

theorem stop_bot_kill_throws_witness:
  "truthy (JStr ''42'') \<and> processes one_running (js_String (JStr ''42'')) = Some 0
   \<and> fst (stop_bot KillThrows (JStr ''42'') one_running) = \<lparr>status = 500, body = msg_stop_failed\<rparr>
   \<and> processes (snd (stop_bot KillThrows (JStr ''42'') one_running)) = processes one_running"
proof -
  have h1: "truthy (JStr ''42'')" by simp
  have h2: "processes one_running (js_String (JStr ''42'')) = Some 0"
    by code_simp
  show ?thesis
    using h2 stop_bot_kill_throws [OF h1 h2] by (simp add: kill_call_def)
qed




text \<open>
  C6 fails on the code for the identifiers that name a member of \<^verbatim>\<open>Object.prototype\<close>:
  on a freshly booted server, where no handle is registered, the stop request for
  \<^verbatim>\<open>constructor\<close> finds the inherited member, fails to call its \<^verbatim>\<open>kill\<close> and is answered
  with status 500 instead of the "not running" acknowledgment.
\<close>

theorem stop_bot_inherited_key:
  "stop_bot kr (JStr ''constructor'') (boot us) =
     (\<lparr>status = 500, body = msg_stop_failed\<rparr>, boot us)"
  by (simp add: stop_bot_def get_process_def boot_def object_prototype_keys_def)


section \<open>Workers\<close>

lemma appendLog_fields [simp]:
  "children (appendLog uid t s) = children s"
  "processes (appendLog uid t s) = processes s"
  "rooms (appendLog uid t s) = rooms s"
  "inbox (appendLog uid t s) = inbox s"
  "os_calls (appendLog uid t s) = os_calls s"
  by (auto simp: appendLog_def appendFileSync_def split: option.splits)

lemma read_file_appendLog:
  "read_file (appendLog uid t s) k g =
     (if existsSync_dir s uid \<and> k = uid \<and> g = LogsTxt
      then Some ((case read_file s uid LogsTxt of None \<Rightarrow> [] | Some old \<Rightarrow> old) @ t @ newline)
      else read_file s k g)"
proof (cases "appendFileSync uid LogsTxt (t @ newline) s")
  case None
  then have "\<not> existsSync_dir s uid"
    by (auto simp: appendFileSync_def existsSync_dir_def split: option.splits)
  then show ?thesis
    using None by (simp add: appendLog_def read_file_def)
next
  case (Some s')
  then have "existsSync_dir s uid"
    by (auto simp: appendFileSync_def existsSync_dir_def split: option.splits)
  then show ?thesis
    using Some read_file_appendFileSync [OF Some] by (simp add: appendLog_def)
qed

lemma existsSync_file_appendLog:
  "existsSync_file s k g \<Longrightarrow> existsSync_file (appendLog uid t s) k g"
  by (simp add: existsSync_file_def read_file_appendLog)

lemma emit_botlog_fields [simp]:
  "users (emit_botlog room t s) = users s"
  "children (emit_botlog room t s) = children s"
  "processes (emit_botlog room t s) = processes s"
  "rooms (emit_botlog room t s) = rooms s"
  "inbox (emit_botlog room t s) = inbox s @ map (\<lambda>k. (k, t)) (room_members s room)"
  "console (emit_botlog room t s) = console s"
  "os_calls (emit_botlog room t s) = os_calls s"
  by (simp_all add: emit_botlog_def)

lemma read_file_emit_botlog [simp]: "read_file (emit_botlog room t s) k g = read_file s k g"
  by (simp add: read_file_def)

lemma room_members_appendLog [simp]: "room_members (appendLog uid t s) room = room_members s room"
  by (simp add: room_members_def)

lemma on_stdout_fields [simp]:
  "children (on_stdout uid d s) = children s"
  "processes (on_stdout uid d s) = processes s"
  "os_calls (on_stdout uid d s) = os_calls s"
  by (simp_all add: on_stdout_def Let_def)

lemma on_stderr_fields [simp]:
  "children (on_stderr uid d s) = children s"
  "processes (on_stderr uid d s) = processes s"
  "os_calls (on_stderr uid d s) = os_calls s"
  by (simp_all add: on_stderr_def Let_def)

lemma on_exit_fields [simp]:
  "children (on_exit uid code now s) = children s"
  "processes (on_exit uid code now s) = (processes s)(uid := None)"
  "os_calls (on_exit uid code now s) = os_calls s"
  "inbox (on_exit uid code now s) = inbox s @ map (\<lambda>k. (k, exit_msg code now)) (room_members s uid)"
  by (simp_all add: on_exit_def Let_def)





lemma existsSync_file_console [simp]:
  "existsSync_file (s\<lparr>console := x\<rparr>) k g = existsSync_file s k g"
  by (simp add: existsSync_file_def read_file_def)

lemma existsSync_file_launch [simp]:
  "existsSync_file (launch kr uid s) k g = existsSync_file s k g"
  by (simp add: existsSync_file_def read_file_def launch_fields)

lemma mkdirSync_fields [simp]:
  "children (mkdirSync uid s) = children s"
  "processes (mkdirSync uid s) = processes s"
  "rooms (mkdirSync uid s) = rooms s"
  "inbox (mkdirSync uid s) = inbox s"
  "console (mkdirSync uid s) = console s"
  "os_calls (mkdirSync uid s) = os_calls s"
  by (simp_all add: mkdirSync_def)

lemma stop_bot_fields:
  "users (snd (stop_bot kr uid s)) = users s"
  "children (snd (stop_bot kr uid s)) = children s"
  "processes (snd (stop_bot kr uid s)) k = Some h \<Longrightarrow> processes s k = Some h"
  by (auto simp: stop_bot_def kill_call_def Let_def split: lookup.splits if_splits)

lemma socket_fields [simp]:
  "users (socket_join sk r s) = users s"
  "children (socket_join sk r s) = children s"
  "processes (socket_join sk r s) = processes s"
  "users (socket_disconnect sk s) = users s"
  "children (socket_disconnect sk s) = children s"
  "processes (socket_disconnect sk s) = processes s"
  by (simp_all add: socket_join_def socket_disconnect_def)










lemma read_file_launch [simp]: "read_file (launch kr uid s) k g = read_file s k g"
  by (simp add: read_file_def launch_fields)

lemma read_file_children_update [simp]: "read_file (s\<lparr>children := x\<rparr>) k g = read_file s k g"
  by (simp add: read_file_def)








section \<open>The log\<close>


lemma read_file_stop_bot [simp]: "read_file (snd (stop_bot kr uid s)) k g = read_file s k g"
  by (simp add: read_file_def stop_bot_fields)

lemma read_file_socket [simp]:
  "read_file (socket_join sk r s) k g = read_file s k g"
  "read_file (socket_disconnect sk s) k g = read_file s k g"
  by (simp_all add: read_file_def)





section \<open>Replacing a running worker\<close>







end
